theory Spec2Isabelle
  imports Complex_Main "HOL-Library.Word" "HOL-Library.AList"
begin

section \<open>Data model of the memcacheha client\<close>

text \<open>
  The client of \<^verbatim>\<open>client.go\<close> fans every operation out to the healthy nodes, collects one
  \<^verbatim>\<open>NodeResponse\<close> per node from a buffered channel and aggregates them in a goroutine
  that publishes the caller-visible result on \<^verbatim>\<open>finishChan\<close>.

  A node (\<^verbatim>\<open>*Node\<close>) is identified by its endpoint address, the key under which the
  \<^verbatim>\<open>NodeList\<close> holds it.
\<close>

type_synonym node = string

text \<open>
  The error values the client compares against or returns. \<^verbatim>\<open>nil\<close> is \<open>None\<close> of
  \<open>error option\<close>; every error of a node that is none of the named ones (a transport
  failure, a timeout) is \<open>ErrOther\<close> with its message.
\<close>

datatype error =
    ErrNoHealthyNodes
  | ErrUnknown
  | ErrAlreadyRunning
  | ErrCacheMiss
  | ErrNotStored
  | ErrOther string

text \<open>
  Modelled from the spec: the struct \<^verbatim>\<open>Item\<close> is declared outside \<^verbatim>\<open>client.go\<close>; the
  client reads \<^verbatim>\<open>item.Key\<close> and the pointer field \<^verbatim>\<open>item.Expiration\<close> only. An
  \<^verbatim>\<open>*Item\<close> that may be \<^verbatim>\<open>nil\<close> is an \<open>item option\<close>.
\<close>

record item =
  Key :: string
  Val :: string
  Expiration :: "nat option"

text \<open>
  \<^verbatim>\<open>NodeResponse\<close>, with the fields the client reads and in the argument order of
  \<^verbatim>\<open>NewNodeResponse(node, item, err, newValue)\<close>. \<^verbatim>\<open>NewValue\<close> is a \<^verbatim>\<open>uint64\<close>.
\<close>

record node_response =
  Node :: node
  Item :: "item option"
  Error :: "error option"
  NewValue :: "64 word"

text \<open>
  What the cluster does during one replicated operation, as the operation observes it:
  \<^item> \<open>healthy\<close>: the snapshot \<^verbatim>\<open>client.Nodes.GetHealthyNodes()\<close> taken on entry, a Go map;
    the list holds its keys in the order in which a \<^verbatim>\<open>range\<close> over the map yields them
    (any order), so its entries are distinct for a real snapshot;
  \<^item> \<open>statusChan\<close>: the responses in the order in which they arrive on \<^verbatim>\<open>statusChan\<close>;
  \<^item> \<open>healthyAfter\<close>: the value of \<^verbatim>\<open>client.Nodes.GetHealthyNodeCount()\<close> once all
    responses have been collected.
\<close>

record fanout =
  healthy :: "node list"
  statusChan :: "node_response list"
  healthyAfter :: nat

text \<open>
  A call either returns a value to its caller, or the caller stays blocked on
  \<^verbatim>\<open>finishChan\<close> for ever (the aggregating goroutine waits for a response that never
  arrives, or ends without publishing a result).
\<close>

datatype 'a outcome = Returns 'a | Blocks

text \<open>
  The observable behaviour of one call: its outcome, the nodes the operation was
  dispatched to, and the asynchronous repair writes \<^verbatim>\<open>node.Set(item, nil)\<close> it issued, in
  order. Log lines are not modelled.
\<close>

record 'a call =
  outcome_of :: "'a outcome"
  dispatched :: "node list"
  syncs :: "(node \<times> item) list"

section \<open>Client.Get\<close>

text \<open>Lines 189 to 192: \<^verbatim>\<open>nodesToRead\<close>, the integer ceiling of half the node count.\<close>

definition nodesToRead :: "nat \<Rightarrow> nat" where
  "nodesToRead nodeCount =
     (let n = nodeCount div 2 in if n * 2 < nodeCount then n + 1 else n)"

text \<open>
  Lines 193 to 198: the \<^verbatim>\<open>range\<close> over the snapshot that deletes the key it is at until
  no more than \<^verbatim>\<open>nodesToRead\<close> entries are left. A deleted key is not visited again, so
  the map that remains is the rest of the key list.
\<close>

fun reduce_nodes :: "nat \<Rightarrow> node list \<Rightarrow> node list" where
  "reduce_nodes n [] = []"
| "reduce_nodes n (k # nodes) =
     (if length (k # nodes) \<le> n then k # nodes else reduce_nodes n nodes)"

text \<open>Lines 187 to 200: the quorum reduction of the snapshot.\<close>

definition quorum :: "node list \<Rightarrow> node list" where
  "quorum nodes =
     (if length nodes > 2 then reduce_nodes (nodesToRead (length nodes)) nodes else nodes)"

text \<open>
  Lines 227 to 235: the loop that receives \<^verbatim>\<open>nodeCount\<close> responses. It yields
  \<^verbatim>\<open>nodesToSync\<close> and \<^verbatim>\<open>item\<close>, or \<open>None\<close> when the channel runs dry first.
\<close>

fun get_collect ::
  "nat \<Rightarrow> node_response list \<Rightarrow> node list \<Rightarrow> item option \<Rightarrow> (node list \<times> item option) option"
where
  "get_collect 0 ch nodesToSync it = Some (nodesToSync, it)"
| "get_collect (Suc nodeCount) [] nodesToSync it = None"
| "get_collect (Suc nodeCount) (response # ch) nodesToSync it =
     get_collect nodeCount ch
       (if Error response = Some ErrCacheMiss then nodesToSync @ [Node response]
        else nodesToSync)
       (if Error response = None \<and> Item response \<noteq> None then Item response else it)"

definition Get :: "string \<Rightarrow> fanout \<Rightarrow> (item option \<times> error option) call" where
  "Get key w =
     (if length (healthy w) = 0 then
        \<lparr>outcome_of = Returns (None, Some ErrNoHealthyNodes), dispatched = [], syncs = []\<rparr>
      else
        let nodes = quorum (healthy w) in
        case get_collect (length nodes) (statusChan w) [] None of
          None \<Rightarrow> \<lparr>outcome_of = Blocks, dispatched = nodes, syncs = []\<rparr>
        | Some (nodesToSync, None) \<Rightarrow>
            \<lparr>outcome_of = Returns (None, Some ErrCacheMiss), dispatched = nodes, syncs = []\<rparr>
        | Some (nodesToSync, Some it) \<Rightarrow>
            \<lparr>outcome_of = Returns (Some it, None), dispatched = nodes,
             syncs = map (\<lambda>n. (n, it)) nodesToSync\<rparr>)"

section \<open>Client.Add\<close>

text \<open>
  Lines 79 to 88: the receiving loop of \<^verbatim>\<open>Add\<close>. It yields \<^verbatim>\<open>doSync\<close> (some node
  answered \<^verbatim>\<open>ErrNotStored\<close>) and \<^verbatim>\<open>nodesToSync\<close> (the nodes that answered \<^verbatim>\<open>nil\<close>).
\<close>

fun add_collect ::
  "nat \<Rightarrow> node_response list \<Rightarrow> bool \<Rightarrow> node list \<Rightarrow> (bool \<times> node list) option"
where
  "add_collect 0 ch doSync nodesToSync = Some (doSync, nodesToSync)"
| "add_collect (Suc nodeCount) [] doSync nodesToSync = None"
| "add_collect (Suc nodeCount) (response # ch) doSync nodesToSync =
     add_collect nodeCount ch
       (if Error response = Some ErrNotStored then True else doSync)
       (if Error response = None then nodesToSync @ [Node response] else nodesToSync)"

text \<open>
  Lines 91 to 111, the branch taken when \<^verbatim>\<open>doSync\<close> holds; \<open>g\<close> is the nested call
  \<^verbatim>\<open>client.Get(item.Key)\<close> of line 95, whose results shadow \<^verbatim>\<open>item\<close> and \<^verbatim>\<open>err\<close>.
  The writes of lines 103 to 105 are guarded by \<^verbatim>\<open>err != nil\<close>; line 98 reads
  \<^verbatim>\<open>item.Expiration\<close> first, which panics when the re-read item is \<^verbatim>\<open>nil\<close>, and the
  deferred handler of lines 71 to 76 then publishes \<^verbatim>\<open>ErrUnknown\<close>.
\<close>

definition add_sync ::
  "node list \<Rightarrow> node list \<Rightarrow> (item option \<times> error option) call \<Rightarrow> error option call"
where
  "add_sync nodes nodesToSync g =
     (if length nodesToSync > 0 then
        (case outcome_of g of
           Blocks \<Rightarrow> \<lparr>outcome_of = Blocks, dispatched = nodes, syncs = syncs g\<rparr>
         | Returns (it, err) \<Rightarrow>
             if err \<noteq> None then
               (case it of
                  None \<Rightarrow>
                    \<lparr>outcome_of = Returns (Some ErrUnknown), dispatched = nodes,
                     syncs = syncs g\<rparr>
                | Some v \<Rightarrow>
                    \<lparr>outcome_of = Returns (Some ErrNotStored), dispatched = nodes,
                     syncs = syncs g @ map (\<lambda>n. (n, v)) nodesToSync\<rparr>)
             else
               \<lparr>outcome_of = Returns (Some ErrNotStored), dispatched = nodes,
                syncs = syncs g\<rparr>)
      else \<lparr>outcome_of = Returns (Some ErrNotStored), dispatched = nodes, syncs = []\<rparr>)"

text \<open>
  \<^verbatim>\<open>Add\<close>: \<open>w\<close> is what the cluster does for the fan-out of the \<^verbatim>\<open>Add\<close> itself, \<open>wget\<close>
  what it does for the nested \<^verbatim>\<open>client.Get\<close> of the repair.
\<close>

definition Add :: "item \<Rightarrow> fanout \<Rightarrow> fanout \<Rightarrow> error option call" where
  "Add it w wget =
     (let nodes = healthy w; nodeCount = length nodes in
      if nodeCount = 0 then
        \<lparr>outcome_of = Returns (Some ErrNoHealthyNodes), dispatched = [], syncs = []\<rparr>
      else
        case add_collect nodeCount (statusChan w) False [] of
          None \<Rightarrow> \<lparr>outcome_of = Blocks, dispatched = nodes, syncs = []\<rparr>
        | Some (doSync, nodesToSync) \<Rightarrow>
            if doSync then add_sync nodes nodesToSync (Get (Key it) wget)
            else if healthyAfter w = 0 then
              \<lparr>outcome_of = Returns (Some ErrNoHealthyNodes), dispatched = nodes, syncs = []\<rparr>
            else \<lparr>outcome_of = Returns None, dispatched = nodes, syncs = []\<rparr>)"

section \<open>Client.Set\<close>

text \<open>Lines 156 to 159: the loop receives \<^verbatim>\<open>nodeCount\<close> responses and drops them.\<close>

fun set_collect :: "nat \<Rightarrow> node_response list \<Rightarrow> unit option" where
  "set_collect 0 ch = Some ()"
| "set_collect (Suc nodeCount) [] = None"
| "set_collect (Suc nodeCount) (response # ch) = set_collect nodeCount ch"

definition Set_item :: "item \<Rightarrow> fanout \<Rightarrow> error option call" where
  "Set_item it w =
     (let nodes = healthy w; nodeCount = length nodes in
      if nodeCount = 0 then
        \<lparr>outcome_of = Returns (Some ErrNoHealthyNodes), dispatched = [], syncs = []\<rparr>
      else
        case set_collect nodeCount (statusChan w) of
          None \<Rightarrow> \<lparr>outcome_of = Blocks, dispatched = nodes, syncs = []\<rparr>
        | Some u \<Rightarrow>
            if healthyAfter w = 0 then
              \<lparr>outcome_of = Returns (Some ErrNoHealthyNodes), dispatched = nodes, syncs = []\<rparr>
            else \<lparr>outcome_of = Returns None, dispatched = nodes, syncs = []\<rparr>)"

section \<open>Client.Delete and Client.Touch\<close>

text \<open>Lines 401 to 406: the receiving loop of \<^verbatim>\<open>Delete\<close>; it yields \<^verbatim>\<open>errToReturn\<close>.\<close>

fun delete_collect ::
  "nat \<Rightarrow> node_response list \<Rightarrow> error option \<Rightarrow> error option option"
where
  "delete_collect 0 ch errToReturn = Some errToReturn"
| "delete_collect (Suc nodeCount) [] errToReturn = None"
| "delete_collect (Suc nodeCount) (response # ch) errToReturn =
     delete_collect nodeCount ch
       (if Error response = Some ErrCacheMiss then Some ErrCacheMiss else errToReturn)"

definition Delete :: "string \<Rightarrow> fanout \<Rightarrow> error option call" where
  "Delete key w =
     (let nodes = healthy w; nodeCount = length nodes in
      if length nodes = 0 then
        \<lparr>outcome_of = Returns (Some ErrNoHealthyNodes), dispatched = [], syncs = []\<rparr>
      else
        case delete_collect nodeCount (statusChan w) None of
          None \<Rightarrow> \<lparr>outcome_of = Blocks, dispatched = nodes, syncs = []\<rparr>
        | Some errToReturn \<Rightarrow>
            if healthyAfter w = 0 then
              \<lparr>outcome_of = Returns (Some ErrNoHealthyNodes), dispatched = nodes, syncs = []\<rparr>
            else \<lparr>outcome_of = Returns errToReturn, dispatched = nodes, syncs = []\<rparr>)"

text \<open>Lines 454 to 459: the receiving loop of \<^verbatim>\<open>Touch\<close>, the same as that of \<^verbatim>\<open>Delete\<close>.\<close>

fun touch_collect ::
  "nat \<Rightarrow> node_response list \<Rightarrow> error option \<Rightarrow> error option option"
where
  "touch_collect 0 ch errToReturn = Some errToReturn"
| "touch_collect (Suc nodeCount) [] errToReturn = None"
| "touch_collect (Suc nodeCount) (response # ch) errToReturn =
     touch_collect nodeCount ch
       (if Error response = Some ErrCacheMiss then Some ErrCacheMiss else errToReturn)"

text \<open>\<^verbatim>\<open>seconds\<close> is an \<^verbatim>\<open>int32\<close>; it is passed on to the nodes and not read otherwise.\<close>

definition Touch :: "string \<Rightarrow> 32 word \<Rightarrow> fanout \<Rightarrow> error option call" where
  "Touch key seconds w =
     (let nodes = healthy w; nodeCount = length nodes in
      if length nodes = 0 then
        \<lparr>outcome_of = Returns (Some ErrNoHealthyNodes), dispatched = [], syncs = []\<rparr>
      else
        case touch_collect nodeCount (statusChan w) None of
          None \<Rightarrow> \<lparr>outcome_of = Blocks, dispatched = nodes, syncs = []\<rparr>
        | Some errToReturn \<Rightarrow>
            if healthyAfter w = 0 then
              \<lparr>outcome_of = Returns (Some ErrNoHealthyNodes), dispatched = nodes, syncs = []\<rparr>
            else \<lparr>outcome_of = Returns errToReturn, dispatched = nodes, syncs = []\<rparr>)"

section \<open>Client.Increment\<close>

text \<open>
  The variables of the aggregating goroutine of \<^verbatim>\<open>Increment\<close>. \<^verbatim>\<open>newValues\<close> is a Go
  map; the association list holds its entries in the order of first insertion, and the
  \<^verbatim>\<open>range\<close> of line 332 is taken to visit them in that order.
\<close>

record incr_vars =
  nodesToSync :: "node list"
  maxValue :: "64 word option"
  maxNode :: "node option"
  newValues :: "(node \<times> 64 word) list"

text \<open>Lines 310 to 322: one round of the receiving loop.\<close>

definition incr_step :: "node_response \<Rightarrow> incr_vars \<Rightarrow> incr_vars" where
  "incr_step response s =
     (let s1 = (if Error response = Some ErrCacheMiss
                then s\<lparr>nodesToSync := nodesToSync s @ [Node response]\<rparr> else s)
      in
        if Error response = None then
          (if (case maxValue s1 of None \<Rightarrow> True | Some m \<Rightarrow> NewValue response > m) then
             s1\<lparr>maxNode := Some (Node response),
                newValues := AList.update (Node response) (NewValue response) (newValues s1),
                maxValue := Some (NewValue response)\<rparr>
           else s1)
        else s1)"

text \<open>
  Lines 309 to 323: the loop; it yields the variables and what is left on the channel,
  or \<open>None\<close> when the channel runs dry first.
\<close>

fun incr_collect ::
  "nat \<Rightarrow> node_response list \<Rightarrow> incr_vars \<Rightarrow> (incr_vars \<times> node_response list) option"
where
  "incr_collect 0 ch s = Some (s, ch)"
| "incr_collect (Suc nodeCount) [] s = None"
| "incr_collect (Suc nodeCount) (response # ch) s =
     incr_collect nodeCount ch (incr_step response s)"

text \<open>Lines 332 to 336: the nodes recorded in \<^verbatim>\<open>newValues\<close> with a value below the maximum.\<close>

definition low_nodes :: "(node \<times> 64 word) list \<Rightarrow> 64 word \<Rightarrow> node list" where
  "low_nodes nv m = map fst (filter (\<lambda>p. snd p < m) nv)"

text \<open>
  Lines 339 to 360. The re-read \<^verbatim>\<open>maxNode.Get(key, statusChan)\<close> publishes on the same
  channel, so its response is the next message there. When it carries an error the
  goroutine returns at line 345 and nothing is ever sent on \<^verbatim>\<open>finishChan\<close>. When it
  carries neither error nor item, line 347 dereferences \<^verbatim>\<open>nil\<close> and the deferred handler
  publishes \<^verbatim>\<open>ErrUnknown\<close> with \<^verbatim>\<open>NewValue\<close> 0.
\<close>

definition incr_sync ::
  "node list \<Rightarrow> node list \<Rightarrow> 64 word \<Rightarrow> node_response list \<Rightarrow> (64 word \<times> error option) call"
where
  "incr_sync nodes toSync m ch =
     (if length toSync > 0 then
        (case ch of
           [] \<Rightarrow> \<lparr>outcome_of = Blocks, dispatched = nodes, syncs = []\<rparr>
         | response # rest \<Rightarrow>
             if Error response \<noteq> None then
               \<lparr>outcome_of = Blocks, dispatched = nodes, syncs = []\<rparr>
             else
               (case Item response of
                  None \<Rightarrow>
                    \<lparr>outcome_of = Returns (0, Some ErrUnknown), dispatched = nodes, syncs = []\<rparr>
                | Some v \<Rightarrow>
                    \<lparr>outcome_of = Returns (m, None), dispatched = nodes,
                     syncs = map (\<lambda>n. (n, v)) toSync\<rparr>))
      else \<lparr>outcome_of = Returns (m, None), dispatched = nodes, syncs = []\<rparr>)"

text \<open>
  \<^verbatim>\<open>Increment\<close>. \<^verbatim>\<open>maxValue\<close> and \<^verbatim>\<open>maxNode\<close> are assigned together (lines 317 to 320),
  so \<^verbatim>\<open>*maxValue\<close> is never a \<^verbatim>\<open>nil\<close> dereference once \<^verbatim>\<open>maxNode\<close> is set; the model
  keeps that branch as the recovered panic it would be.
\<close>

definition Increment :: "string \<Rightarrow> 64 word \<Rightarrow> fanout \<Rightarrow> (64 word \<times> error option) call" where
  "Increment key delta w =
     (let nodes = healthy w; nodeCount = length nodes in
      if nodeCount = 0 then
        \<lparr>outcome_of = Returns (0, Some ErrNoHealthyNodes), dispatched = [], syncs = []\<rparr>
      else
        case incr_collect nodeCount (statusChan w)
               \<lparr>nodesToSync = [], maxValue = None, maxNode = None, newValues = []\<rparr> of
          None \<Rightarrow> \<lparr>outcome_of = Blocks, dispatched = nodes, syncs = []\<rparr>
        | Some (s, ch) \<Rightarrow>
            (case maxNode s of
               None \<Rightarrow>
                 \<lparr>outcome_of = Returns (0, Some ErrCacheMiss), dispatched = nodes, syncs = []\<rparr>
             | Some mn \<Rightarrow>
                 (case maxValue s of
                    None \<Rightarrow>
                      \<lparr>outcome_of = Returns (0, Some ErrUnknown), dispatched = nodes,
                       syncs = []\<rparr>
                  | Some m \<Rightarrow>
                      incr_sync nodes (nodesToSync s @ low_nodes (newValues s) m) m ch)))"

section \<open>Membership refresh and health checks\<close>

text \<open>
  Modelled from the spec: \<^verbatim>\<open>NodeList\<close>, \<^verbatim>\<open>NewNode\<close> and \<^verbatim>\<open>Node.HealthCheck\<close> are declared
  outside \<^verbatim>\<open>client.go\<close>. The \<^verbatim>\<open>NodeList\<close> is a mapping from endpoint address to node
  with unique keys; of a node the model keeps its \<^verbatim>\<open>Healthy\<close> flag. The list holds the
  entries in the order in which a \<^verbatim>\<open>range\<close> over \<^verbatim>\<open>client.Nodes.Nodes\<close> yields them.
\<close>

type_synonym node_list = "(string \<times> bool) list"

text \<open>Modelled from the spec: \<^verbatim>\<open>NodeList.Exists(endpoint)\<close>, the membership query.\<close>

definition Exists :: "node_list \<Rightarrow> string \<Rightarrow> bool" where
  "Exists nl nodeAddr = (map_of nl nodeAddr \<noteq> None)"

text \<open>Modelled from the spec: \<^verbatim>\<open>NodeList.Add(node)\<close> stores the node under its endpoint.\<close>

definition NodeList_Add :: "string \<times> bool \<Rightarrow> node_list \<Rightarrow> node_list" where
  "NodeList_Add n nl = AList.update (fst n) (snd n) nl"

text \<open>
  Modelled from the spec: \<^verbatim>\<open>Node.HealthCheck()\<close> probes the endpoint, returns
  \<^verbatim>\<open>(ok, err)\<close> and leaves \<^verbatim>\<open>ok\<close> in the node's \<^verbatim>\<open>Healthy\<close> flag. What the probe of an
  endpoint finds in a round is a parameter.
\<close>

type_synonym probe = "string \<Rightarrow> bool \<times> error option"

text \<open>
  Lines 549 to 563: the nodes of one source. Every address is entered in
  \<^verbatim>\<open>incomingNodes\<close>; one that the \<^verbatim>\<open>NodeList\<close> does not hold is added to it at once, as
  a new node with the flag its first health check leaves.
\<close>

fun add_nodes :: "probe \<Rightarrow> string list \<Rightarrow> string set \<Rightarrow> node_list \<Rightarrow> string set \<times> node_list" where
  "add_nodes hc [] incomingNodes nl = (incomingNodes, nl)"
| "add_nodes hc (nodeAddr # nodes) incomingNodes nl =
     add_nodes hc nodes (insert nodeAddr incomingNodes)
       (if \<not> Exists nl nodeAddr then NodeList_Add (nodeAddr, fst (hc nodeAddr)) nl else nl)"

text \<open>
  Lines 541 to 572. A source's \<^verbatim>\<open>GetNodes()\<close> gives an error (\<open>Inl\<close>) or its addresses
  (\<open>Inr\<close>). The first error returns from the function (line 545); when no source fails,
  the last loop deletes every node whose address is not in \<^verbatim>\<open>incomingNodes\<close>.
\<close>

fun refresh ::
  "probe \<Rightarrow> (error + string list) list \<Rightarrow> string set \<Rightarrow> node_list \<Rightarrow> node_list"
where
  "refresh hc [] incomingNodes nl = filter (\<lambda>n. fst n \<in> incomingNodes) nl"
| "refresh hc (Inl err # sources) incomingNodes nl = nl"
| "refresh hc (Inr nodes # sources) incomingNodes nl =
     (case add_nodes hc nodes incomingNodes nl of
        (incoming', nl') \<Rightarrow> refresh hc sources incoming' nl')"

text \<open>
  \<^verbatim>\<open>Client.GetNodes\<close>: \<open>sources\<close> holds what each of \<^verbatim>\<open>client.Sources\<close> answers in this
  round, in their order; the result is the \<^verbatim>\<open>NodeList\<close> after the round.
\<close>

definition GetNodes :: "probe \<Rightarrow> (error + string list) list \<Rightarrow> node_list \<Rightarrow> node_list" where
  "GetNodes hc sources nl = refresh hc sources {} nl"

text \<open>
  What a round of \<^verbatim>\<open>Client.HealthCheck\<close> does: the nodes whose \<^verbatim>\<open>HealthCheck\<close> it
  invoked, in order, the \<^verbatim>\<open>NodeList\<close> after the round, and the error it returns.
\<close>

record health_round =
  checked :: "string list"
  nodes_after :: node_list
  returned :: "error option"

text \<open>
  Lines 577 to 583: the \<^verbatim>\<open>range\<close> over the \<^verbatim>\<open>NodeList\<close>; the first check that gives an
  error ends the round (line 580).
\<close>

fun HealthCheck :: "probe \<Rightarrow> node_list \<Rightarrow> health_round" where
  "HealthCheck hc [] = \<lparr>checked = [], nodes_after = [], returned = None\<rparr>"
| "HealthCheck hc (n # nl) =
     (case hc (fst n) of
        (ok, Some err) \<Rightarrow>
          \<lparr>checked = [fst n], nodes_after = (fst n, ok) # nl, returned = Some err\<rparr>
      | (ok, None) \<Rightarrow>
          (let r = HealthCheck hc nl in
           \<lparr>checked = fst n # checked r, nodes_after = (fst n, ok) # nodes_after r,
            returned = returned r\<rparr>))"

section \<open>The response sets of the aggregation rules\<close>

text \<open>
  A response of \<^verbatim>\<open>Get\<close> is a hit when it satisfies the test of line 232 (no error and
  an item), and a miss when it satisfies the test of line 229 (\<^verbatim>\<open>ErrCacheMiss\<close>).
\<close>

definition hit :: "node_response \<Rightarrow> bool" where
  "hit r = (Error r = None \<and> Item r \<noteq> None)"

definition miss :: "node_response \<Rightarrow> bool" where
  "miss r = (Error r = Some ErrCacheMiss)"

section \<open>Get: quorum size and read repair\<close>


lemma nodesToRead_half: "nodesToRead n = (n + 1) div 2"
  unfolding nodesToRead_def Let_def by presburger

lemma ceil_half: "\<lceil>real n / 2\<rceil> = int ((n + 1) div 2)"
proof (cases "even n")
  case True
  then obtain k where "n = 2 * k" by (auto elim: evenE)
  then show ?thesis by simp
next
  case False
  then obtain k where k: "n = 2 * k + 1" by (auto elim: oddE)
  have "\<lceil>real n / 2\<rceil> = int k + 1"
    by (rule ceiling_unique) (simp_all add: k field_simps)
  then show ?thesis by (simp add: k)
qed

lemma reduce_nodes_drop: "reduce_nodes n xs = drop (length xs - n) xs"
  by (induction xs) (auto simp: Suc_diff_le)

lemma quorum_length: "2 < length H \<Longrightarrow> length (quorum H) = (length H + 1) div 2"
  unfolding quorum_def by (simp add: reduce_nodes_drop nodesToRead_half) 

lemma quorum_small: "length H \<le> 2 \<Longrightarrow> quorum H = H"
  unfolding quorum_def by simp

lemma quorum_drop: "\<exists>k. quorum H = drop k H"
  unfolding quorum_def by (metis drop0 reduce_nodes_drop)

lemma dispatched_Get: "dispatched (Get key w) = quorum (healthy w)"
  unfolding Get_def by (auto simp: Let_def quorum_def split: option.splits prod.splits)

lemma get_collect_eq:
  "n \<le> length ch \<Longrightarrow>
   get_collect n ch ns it =
     Some (ns @ map Node (filter miss (take n ch)),
           if filter hit (take n ch) = [] then it else Item (last (filter hit (take n ch))))"
  by (induction n ch ns it rule: get_collect.induct) (auto simp: hit_def miss_def)


text \<open>
  Claim C8. Whatever the cluster answers, \<^verbatim>\<open>Get\<close> on a healthy snapshot \<open>H\<close> of more
  than two nodes dispatches to exactly \<open>\<lceil>|H| / 2\<rceil>\<close> nodes, all of them nodes of \<open>H\<close>
  (and distinct ones, the keys of a map being distinct); on a snapshot of at most two nodes
  it dispatches to all of \<open>H\<close>.
\<close>

theorem Get_quorum_size:
  "(2 < length (healthy w) \<longrightarrow>
      int (length (dispatched (Get key w))) = \<lceil>real (length (healthy w)) / 2\<rceil>
      \<and> set (dispatched (Get key w)) \<subseteq> set (healthy w)
      \<and> (distinct (healthy w) \<longrightarrow> distinct (dispatched (Get key w))))
   \<and> (length (healthy w) \<le> 2 \<longrightarrow> dispatched (Get key w) = healthy w)"
proof -
  obtain k where k: "quorum (healthy w) = drop k (healthy w)"
    using quorum_drop by blast
  have "set (quorum (healthy w)) \<subseteq> set (healthy w)"
    unfolding k by (rule set_drop_subset)
  moreover have "distinct (healthy w) \<Longrightarrow> distinct (quorum (healthy w))"
    unfolding k by simp
  ultimately show ?thesis
    by (simp add: dispatched_Get quorum_length quorum_small ceil_half)
qed

theorem Get_quorum_size_witness:
  "int (length (dispatched (Get ''x''
      \<lparr>healthy = [''a'', ''b'', ''c'', ''d'', ''e''], statusChan = [], healthyAfter = 5\<rparr>))) = 3
   \<and> dispatched (Get ''x''
      \<lparr>healthy = [''a'', ''b''], statusChan = [], healthyAfter = 2\<rparr>) = [''a'', ''b'']"
  using Get_quorum_size [of "\<lparr>healthy = [''a'', ''b'', ''c'', ''d'', ''e''], statusChan = [], healthyAfter = 5\<rparr>" "''x''"]
    Get_quorum_size [of "\<lparr>healthy = [''a'', ''b''], statusChan = [], healthyAfter = 2\<rparr>" "''x''"]
  by simp

text \<open>
  Claim C7. Let \<^verbatim>\<open>Get\<close> have dispatched to a non-empty snapshot and every contacted
  node have answered. If no response is a hit, the result is \<^verbatim>\<open>ErrCacheMiss\<close>. If some
  response is a hit, \<^verbatim>\<open>Get\<close> returns the item of one of the hits and issues the
  asynchronous \<^verbatim>\<open>Set\<close> of that item to every node that answered \<^verbatim>\<open>ErrCacheMiss\<close>, and to
  no other node.
\<close>

theorem Get_read_repair:
  assumes "healthy w \<noteq> []"
    and "length (quorum (healthy w)) \<le> length (statusChan w)"
  shows "(filter hit (take (length (quorum (healthy w))) (statusChan w)) = [] \<longrightarrow>
            outcome_of (Get key w) = Returns (None, Some ErrCacheMiss))
       \<and> (filter hit (take (length (quorum (healthy w))) (statusChan w)) \<noteq> [] \<longrightarrow>
            (\<exists>v. Some v \<in> Item ` set (filter hit (take (length (quorum (healthy w))) (statusChan w)))
               \<and> outcome_of (Get key w) = Returns (Some v, None)
               \<and> syncs (Get key w) =
                   map (\<lambda>n. (n, v))
                     (map Node (filter miss (take (length (quorum (healthy w))) (statusChan w))))))"
proof -
  let ?rs = "take (length (quorum (healthy w))) (statusChan w)"
  have c: "get_collect (length (quorum (healthy w))) (statusChan w) [] None =
        Some (map Node (filter miss ?rs),
              if filter hit ?rs = [] then None else Item (last (filter hit ?rs)))"
    using get_collect_eq [OF assms(2), of "[]" None] by simp
  show ?thesis
  proof (cases "filter hit ?rs = []")
    case True
    then show ?thesis using assms(1) c by (simp add: Get_def Let_def)
  next
    case False
    then have l: "last (filter hit ?rs) \<in> set (filter hit ?rs)" by (rule last_in_set)
    then have "hit (last (filter hit ?rs))" by simp
    then obtain v where v: "Item (last (filter hit ?rs)) = Some v"
      by (auto simp: hit_def)
    have "Some v \<in> Item ` set (filter hit ?rs)"
      using l v by (metis imageI)
    moreover have "outcome_of (Get key w) = Returns (Some v, None)"
      using assms(1) c False v by (simp add: Get_def Let_def)
    moreover have "syncs (Get key w) = map (\<lambda>n. (n, v)) (map Node (filter miss ?rs))"
      using assms(1) c False v by (simp add: Get_def Let_def)
    ultimately show ?thesis using False by blast
  qed
qed


theorem Get_read_repair_witness:
  "outcome_of (Get ''x''
      \<lparr>healthy = [''a'', ''b''],
       statusChan = [\<lparr>Node = ''a'', Item = None, Error = Some ErrCacheMiss, NewValue = 0\<rparr>,
                     \<lparr>Node = ''b'', Item = None, Error = Some (ErrOther ''timeout''), NewValue = 0\<rparr>],
       healthyAfter = 1\<rparr>) = Returns (None, Some ErrCacheMiss)
   \<and> outcome_of (Get ''x''
      \<lparr>healthy = [''a'', ''b''],
       statusChan = [\<lparr>Node = ''a'', Item = None, Error = Some ErrCacheMiss, NewValue = 0\<rparr>,
                     \<lparr>Node = ''b'', Item = Some \<lparr>Key = ''x'', Val = ''v'', Expiration = None\<rparr>,
                       Error = None, NewValue = 0\<rparr>],
       healthyAfter = 2\<rparr>) = Returns (Some \<lparr>Key = ''x'', Val = ''v'', Expiration = None\<rparr>, None)
   \<and> syncs (Get ''x''
      \<lparr>healthy = [''a'', ''b''],
       statusChan = [\<lparr>Node = ''a'', Item = None, Error = Some ErrCacheMiss, NewValue = 0\<rparr>,
                     \<lparr>Node = ''b'', Item = Some \<lparr>Key = ''x'', Val = ''v'', Expiration = None\<rparr>,
                       Error = None, NewValue = 0\<rparr>],
       healthyAfter = 2\<rparr>) = [(''a'', \<lparr>Key = ''x'', Val = ''v'', Expiration = None\<rparr>)]"
  using Get_read_repair [of
      "\<lparr>healthy = [''a'', ''b''],
       statusChan = [\<lparr>Node = ''a'', Item = None, Error = Some ErrCacheMiss, NewValue = 0\<rparr>,
                     \<lparr>Node = ''b'', Item = None, Error = Some (ErrOther ''timeout''), NewValue = 0\<rparr>],
       healthyAfter = 1\<rparr>" "''x''"]
    Get_read_repair [of
      "\<lparr>healthy = [''a'', ''b''],
       statusChan = [\<lparr>Node = ''a'', Item = None, Error = Some ErrCacheMiss, NewValue = 0\<rparr>,
                     \<lparr>Node = ''b'', Item = Some \<lparr>Key = ''x'', Val = ''v'', Expiration = None\<rparr>,
                       Error = None, NewValue = 0\<rparr>],
       healthyAfter = 2\<rparr>" "''x''"]
  by (simp add: quorum_def hit_def miss_def)

section \<open>Delete and Touch: the check of the healthy count\<close>

text \<open>
  Each receiving loop ends once as many responses as were dispatched have arrived.
\<close>

lemma set_collect_Some: "n \<le> length ch \<Longrightarrow> set_collect n ch = Some ()"
  by (induction n ch rule: set_collect.induct) auto

lemma delete_collect_Some: "n \<le> length ch \<Longrightarrow> \<exists>e. delete_collect n ch e0 = Some e"
  by (induction n ch e0 rule: delete_collect.induct) auto

lemma touch_collect_Some: "n \<le> length ch \<Longrightarrow> \<exists>e. touch_collect n ch e0 = Some e"
  by (induction n ch e0 rule: touch_collect.induct) auto

text \<open>
  Claim C10. When every contacted node has answered and \<^verbatim>\<open>GetHealthyNodeCount()\<close> is
  zero after the responses have been collected, \<^verbatim>\<open>Delete\<close> and \<^verbatim>\<open>Touch\<close> return
  \<^verbatim>\<open>ErrNoHealthyNodes\<close>, whatever the responses were: an \<^verbatim>\<open>ErrCacheMiss\<close> among them is
  not surfaced.
\<close>

theorem Delete_Touch_no_healthy_nodes:
  assumes "healthyAfter w = 0"
    and "length (healthy w) \<le> length (statusChan w)"
  shows "outcome_of (Delete key w) = Returns (Some ErrNoHealthyNodes)
       \<and> outcome_of (Touch key seconds w) = Returns (Some ErrNoHealthyNodes)"
proof -
  obtain d where "delete_collect (length (healthy w)) (statusChan w) None = Some d"
    using delete_collect_Some [OF assms(2)] by blast
  then have "outcome_of (Delete key w) = Returns (Some ErrNoHealthyNodes)"
    using assms(1) by (simp add: Delete_def Let_def)
  moreover obtain t where "touch_collect (length (healthy w)) (statusChan w) None = Some t"
    using touch_collect_Some [OF assms(2)] by blast
  then have "outcome_of (Touch key seconds w) = Returns (Some ErrNoHealthyNodes)"
    using assms(1) by (simp add: Touch_def Let_def)
  ultimately show ?thesis by simp
qed

text \<open>
  The run behind C10: node \<open>a\<close> answers \<^verbatim>\<open>ErrCacheMiss\<close>, and no node is healthy when the
  responses are in.
\<close>

theorem Delete_Touch_no_healthy_nodes_witness:
  "Error \<lparr>Node = ''a'', Item = None, Error = Some ErrCacheMiss, NewValue = 0\<rparr> = Some ErrCacheMiss
   \<and> outcome_of (Delete ''x''
        \<lparr>healthy = [''a'', ''b''],
         statusChan = [\<lparr>Node = ''a'', Item = None, Error = Some ErrCacheMiss, NewValue = 0\<rparr>,
                       \<lparr>Node = ''b'', Item = None, Error = Some (ErrOther ''timeout''), NewValue = 0\<rparr>],
         healthyAfter = 0\<rparr>) = Returns (Some ErrNoHealthyNodes)
   \<and> outcome_of (Touch ''x'' 60
        \<lparr>healthy = [''a'', ''b''],
         statusChan = [\<lparr>Node = ''a'', Item = None, Error = Some ErrCacheMiss, NewValue = 0\<rparr>,
                       \<lparr>Node = ''b'', Item = None, Error = Some (ErrOther ''timeout''), NewValue = 0\<rparr>],
         healthyAfter = 0\<rparr>) = Returns (Some ErrNoHealthyNodes)"
  using Delete_Touch_no_healthy_nodes [of
        "\<lparr>healthy = [''a'', ''b''],
         statusChan = [\<lparr>Node = ''a'', Item = None, Error = Some ErrCacheMiss, NewValue = 0\<rparr>,
                       \<lparr>Node = ''b'', Item = None, Error = Some (ErrOther ''timeout''), NewValue = 0\<rparr>],
         healthyAfter = 0\<rparr>" "''x''" 60]
  by simp

section \<open>The terminal check across the operations\<close>

text \<open>
  Claim C4, as stated, fails for \<^verbatim>\<open>Get\<close>: the only healthy node answers with the item,
  the healthy count is zero once the response is in, and \<^verbatim>\<open>Get\<close> returns the item.
\<close>

theorem Get_success_without_recheck:
  "healthyAfter
      \<lparr>healthy = [''a''],
       statusChan = [\<lparr>Node = ''a'', Item = Some \<lparr>Key = ''x'', Val = ''v'', Expiration = None\<rparr>,
                       Error = None, NewValue = 0\<rparr>],
       healthyAfter = 0\<rparr> = 0
   \<and> outcome_of (Get ''x''
      \<lparr>healthy = [''a''],
       statusChan = [\<lparr>Node = ''a'', Item = Some \<lparr>Key = ''x'', Val = ''v'', Expiration = None\<rparr>,
                       Error = None, NewValue = 0\<rparr>],
       healthyAfter = 0\<rparr>) = Returns (Some \<lparr>Key = ''x'', Val = ''v'', Expiration = None\<rparr>, None)"
  by (simp add: Get_def quorum_def)

lemma Get_ignores_healthyAfter: "Get key (w\<lparr>healthyAfter := n\<rparr>) = Get key w"
  by (simp add: Get_def)

lemma Increment_ignores_healthyAfter: "Increment key delta (w\<lparr>healthyAfter := n\<rparr>) = Increment key delta w"
  by (simp add: Increment_def Let_def)

lemma Set_recheck:
  "outcome_of (Set_item it (w\<lparr>healthyAfter := Suc n\<rparr>)) = Returns None \<Longrightarrow>
   outcome_of (Set_item it (w\<lparr>healthyAfter := 0\<rparr>)) = Returns (Some ErrNoHealthyNodes)"
  by (auto simp: Set_item_def Let_def split: if_splits option.splits)

lemma Add_recheck:
  "outcome_of (Add it (w\<lparr>healthyAfter := Suc n\<rparr>) wget) = Returns None \<Longrightarrow>
   outcome_of (Add it (w\<lparr>healthyAfter := 0\<rparr>) wget) = Returns (Some ErrNoHealthyNodes)"
  by (auto simp: Add_def add_sync_def Let_def split: if_splits option.splits outcome.splits prod.splits)

lemma Delete_recheck:
  "outcome_of (Delete key (w\<lparr>healthyAfter := Suc n\<rparr>)) = Returns None \<Longrightarrow>
   outcome_of (Delete key (w\<lparr>healthyAfter := 0\<rparr>)) = Returns (Some ErrNoHealthyNodes)"
  by (auto simp: Delete_def Let_def split: if_splits option.splits)

lemma Touch_recheck:
  "outcome_of (Touch key seconds (w\<lparr>healthyAfter := Suc n\<rparr>)) = Returns None \<Longrightarrow>
   outcome_of (Touch key seconds (w\<lparr>healthyAfter := 0\<rparr>)) = Returns (Some ErrNoHealthyNodes)"
  by (auto simp: Touch_def Let_def split: if_splits option.splits)

text \<open>
  Claim C4, amended. \<^verbatim>\<open>Set\<close>, \<^verbatim>\<open>Add\<close>, \<^verbatim>\<open>Delete\<close> and \<^verbatim>\<open>Touch\<close> read
  \<^verbatim>\<open>GetHealthyNodeCount()\<close> after collecting their responses: a call that returns \<^verbatim>\<open>nil\<close>
  when the count is positive returns \<^verbatim>\<open>ErrNoHealthyNodes\<close> when it is zero. \<^verbatim>\<open>Get\<close> and
  \<^verbatim>\<open>Increment\<close> do not read the count after collection: what they do is the same for
  every value of it.
\<close>

theorem healthy_recheck:
  "(outcome_of (Set_item it (w\<lparr>healthyAfter := Suc n\<rparr>)) = Returns None \<longrightarrow>
      outcome_of (Set_item it (w\<lparr>healthyAfter := 0\<rparr>)) = Returns (Some ErrNoHealthyNodes))
   \<and> (outcome_of (Add it (w\<lparr>healthyAfter := Suc n\<rparr>) wget) = Returns None \<longrightarrow>
      outcome_of (Add it (w\<lparr>healthyAfter := 0\<rparr>) wget) = Returns (Some ErrNoHealthyNodes))
   \<and> (outcome_of (Delete key (w\<lparr>healthyAfter := Suc n\<rparr>)) = Returns None \<longrightarrow>
      outcome_of (Delete key (w\<lparr>healthyAfter := 0\<rparr>)) = Returns (Some ErrNoHealthyNodes))
   \<and> (outcome_of (Touch key seconds (w\<lparr>healthyAfter := Suc n\<rparr>)) = Returns None \<longrightarrow>
      outcome_of (Touch key seconds (w\<lparr>healthyAfter := 0\<rparr>)) = Returns (Some ErrNoHealthyNodes))
   \<and> Get key (w\<lparr>healthyAfter := m\<rparr>) = Get key w
   \<and> Increment key delta (w\<lparr>healthyAfter := m\<rparr>) = Increment key delta w"
  by (simp add: Set_recheck Add_recheck Delete_recheck Touch_recheck
      Get_ignores_healthyAfter Increment_ignores_healthyAfter)

text \<open>
  The run behind the amended C4: one healthy node that answers \<^verbatim>\<open>nil\<close>, with the healthy
  count at one and at zero after collection.
\<close>

theorem healthy_recheck_witness:
  "outcome_of (Set_item \<lparr>Key = ''x'', Val = ''v'', Expiration = None\<rparr>
      \<lparr>healthy = [''a''],
       statusChan = [\<lparr>Node = ''a'', Item = None, Error = None, NewValue = 0\<rparr>],
       healthyAfter = 1\<rparr>) = Returns None
   \<and> outcome_of (Set_item \<lparr>Key = ''x'', Val = ''v'', Expiration = None\<rparr>
      \<lparr>healthy = [''a''],
       statusChan = [\<lparr>Node = ''a'', Item = None, Error = None, NewValue = 0\<rparr>],
       healthyAfter = 0\<rparr>) = Returns (Some ErrNoHealthyNodes)
   \<and> outcome_of (Add \<lparr>Key = ''x'', Val = ''v'', Expiration = None\<rparr>
      \<lparr>healthy = [''a''],
       statusChan = [\<lparr>Node = ''a'', Item = None, Error = None, NewValue = 0\<rparr>],
       healthyAfter = 1\<rparr>
      \<lparr>healthy = [], statusChan = [], healthyAfter = 0\<rparr>) = Returns None
   \<and> outcome_of (Add \<lparr>Key = ''x'', Val = ''v'', Expiration = None\<rparr>
      \<lparr>healthy = [''a''],
       statusChan = [\<lparr>Node = ''a'', Item = None, Error = None, NewValue = 0\<rparr>],
       healthyAfter = 0\<rparr>
      \<lparr>healthy = [], statusChan = [], healthyAfter = 0\<rparr>) = Returns (Some ErrNoHealthyNodes)
   \<and> outcome_of (Delete ''x''
      \<lparr>healthy = [''a''],
       statusChan = [\<lparr>Node = ''a'', Item = None, Error = None, NewValue = 0\<rparr>],
       healthyAfter = 1\<rparr>) = Returns None
   \<and> outcome_of (Delete ''x''
      \<lparr>healthy = [''a''],
       statusChan = [\<lparr>Node = ''a'', Item = None, Error = None, NewValue = 0\<rparr>],
       healthyAfter = 0\<rparr>) = Returns (Some ErrNoHealthyNodes)
   \<and> outcome_of (Touch ''x'' 60
      \<lparr>healthy = [''a''],
       statusChan = [\<lparr>Node = ''a'', Item = None, Error = None, NewValue = 0\<rparr>],
       healthyAfter = 1\<rparr>) = Returns None
   \<and> outcome_of (Touch ''x'' 60
      \<lparr>healthy = [''a''],
       statusChan = [\<lparr>Node = ''a'', Item = None, Error = None, NewValue = 0\<rparr>],
       healthyAfter = 0\<rparr>) = Returns (Some ErrNoHealthyNodes)"
  using healthy_recheck [where it = "\<lparr>Key = ''x'', Val = ''v'', Expiration = None\<rparr>"
      and w = "\<lparr>healthy = [''a''],
       statusChan = [\<lparr>Node = ''a'', Item = None, Error = None, NewValue = 0\<rparr>],
       healthyAfter = 1\<rparr>"
      and n = 0 and wget = "\<lparr>healthy = [], statusChan = [], healthyAfter = 0\<rparr>"
      and key = "''x''" and seconds = 60 and m = 0 and delta = 0]
  by (simp add: Set_item_def Add_def Delete_def Touch_def)

section \<open>GetNodes: a source that fails\<close>

lemma update_fresh: "k \<notin> fst ` set al \<Longrightarrow> AList.update k v al = al @ [(k, v)]"
  by (induction al) auto

lemma Exists_iff: "Exists nl a \<longleftrightarrow> a \<in> fst ` set nl"
  by (simp add: Exists_def map_of_eq_None_iff)

lemma add_nodes_appends:
  "\<exists>added. add_nodes hc ns inc nl = (inc \<union> set ns, nl @ added)
      \<and> set (map fst added) = set ns - fst ` set nl
      \<and> map snd added = map (\<lambda>a. fst (hc a)) (map fst added)"
proof (induction ns arbitrary: inc nl)
  case Nil
  then show ?case by simp
next
  case (Cons a ns)
  show ?case
  proof (cases "a \<in> fst ` set nl")
    case True
    obtain added where "add_nodes hc ns (insert a inc) nl = (insert a inc \<union> set ns, nl @ added)"
      and "set (map fst added) = set ns - fst ` set nl"
      and "map snd added = map (\<lambda>a. fst (hc a)) (map fst added)"
      using Cons.IH [of "insert a inc" nl] by blast
    with True show ?thesis
      by (intro exI [of _ added]) (auto simp: Exists_iff)
  next
    case False
    let ?nl = "nl @ [(a, fst (hc a))]"
    obtain added where "add_nodes hc ns (insert a inc) ?nl = (insert a inc \<union> set ns, ?nl @ added)"
      and "set (map fst added) = set ns - fst ` set ?nl"
      and "map snd added = map (\<lambda>a. fst (hc a)) (map fst added)"
      using Cons.IH [of "insert a inc" ?nl] by blast
    with False show ?thesis
      by (intro exI [of _ "(a, fst (hc a)) # added"])
        (auto simp: Exists_iff NodeList_Add_def update_fresh)
  qed
qed

lemma refresh_abort:
  "\<exists>added. refresh hc (map Inr nss @ Inl err # rest) inc nl = nl @ added
      \<and> set (map fst added) = (\<Union>ns\<in>set nss. set ns) - fst ` set nl
      \<and> map snd added = map (\<lambda>a. fst (hc a)) (map fst added)"
proof (induction nss arbitrary: inc nl)
  case Nil
  then show ?case by simp
next
  case (Cons ns nss)
  obtain a1 where a1: "add_nodes hc ns inc nl = (inc \<union> set ns, nl @ a1)"
    and k1: "set (map fst a1) = set ns - fst ` set nl"
    and h1: "map snd a1 = map (\<lambda>a. fst (hc a)) (map fst a1)"
    using add_nodes_appends [of hc ns inc nl] by blast
  obtain a2 where a2: "refresh hc (map Inr nss @ Inl err # rest) (inc \<union> set ns) (nl @ a1) = (nl @ a1) @ a2"
    and k2: "set (map fst a2) = (\<Union>ns\<in>set nss. set ns) - fst ` set (nl @ a1)"
    and h2: "map snd a2 = map (\<lambda>a. fst (hc a)) (map fst a2)"
    using Cons.IH [of "inc \<union> set ns" "nl @ a1"] by blast
  have "refresh hc (map Inr (ns # nss) @ Inl err # rest) inc nl = nl @ (a1 @ a2)"
    using a1 a2 by simp
  moreover have "set (map fst (a1 @ a2)) = (\<Union>ns\<in>set (ns # nss). set ns) - fst ` set nl"
    using k1 k2 by auto
  moreover have "map snd (a1 @ a2) = map (\<lambda>a. fst (hc a)) (map fst (a1 @ a2))"
    using h1 h2 by simp
  ultimately show ?case by blast
qed

text \<open>
  Claim C5, amended. When a source fails, at whatever position, and the sources before it
  answered, the round ends with the \<^verbatim>\<open>NodeList\<close> it started from followed by new nodes:
  no node is removed or changed, and the nodes added are exactly the addresses that the
  sources before the failing one reported and the list did not hold, each with the flag
  of its first health check. Nothing is added for the failing source or a later one; when
  the first source fails the list is unchanged.
\<close>

theorem GetNodes_abort:
  "\<exists>added. GetNodes hc (map Inr nss @ Inl err # rest) nl = nl @ added
      \<and> set (map fst added) = (\<Union>ns\<in>set nss. set ns) - fst ` set nl
      \<and> map snd added = map (\<lambda>a. fst (hc a)) (map fst added)"
  unfolding GetNodes_def by (rule refresh_abort)

text \<open>
  Claim C5, as stated, fails when the failing source is not the first: the first source
  reports \<open>b\<close>, the second fails, and the round leaves \<open>b\<close> in the \<^verbatim>\<open>NodeList\<close>.
\<close>

theorem GetNodes_partial_add:
  "GetNodes (\<lambda>a. (True, None)) [Inr [''b''], Inl (ErrOther ''down'')] [(''a'', True)]
     = [(''a'', True), (''b'', True)]
   \<and> GetNodes (\<lambda>a. (True, None)) [Inr [''b''], Inl (ErrOther ''down'')] [(''a'', True)]
     \<noteq> [(''a'', True)]"
  by (simp add: GetNodes_def Exists_def NodeList_Add_def)

section \<open>Increment: the maximum and its node\<close>

text \<open>
  The receiving loop of \<^verbatim>\<open>Increment\<close> sets \<^verbatim>\<open>maxValue\<close> and \<^verbatim>\<open>maxNode\<close> together, so
  after the loop one is \<^verbatim>\<open>nil\<close> exactly when the other is: the dereference of
  \<^verbatim>\<open>maxValue\<close> behind the test of line 326 cannot panic.
\<close>

lemma incr_step_max_together:
  "(maxNode s = None) = (maxValue s = None) \<Longrightarrow>
   (maxNode (incr_step response s) = None) = (maxValue (incr_step response s) = None)"
  by (simp add: incr_step_def Let_def split: option.splits)

lemma incr_collect_max_together:
  "incr_collect n ch s = Some (s', ch') \<Longrightarrow> (maxNode s = None) = (maxValue s = None) \<Longrightarrow>
   (maxNode s' = None) = (maxValue s' = None)"
proof (induction n ch s rule: incr_collect.induct)
  case (1 ch s)
  then show ?case by simp
next
  case (2 nodeCount s)
  then show ?case by simp
next
  case (3 nodeCount response ch s)
  then show ?case using incr_step_max_together by simp
qed

section \<open>Runs on which the code leaves the specified behaviour\<close>

text \<open>
  Claim C1. Node \<open>a\<close> answers the \<^verbatim>\<open>Add\<close> with \<^verbatim>\<open>ErrNotStored\<close>, node \<open>b\<close> with \<^verbatim>\<open>nil\<close>,
  and the re-read succeeds with the old item. The guard of line 96 is \<^verbatim>\<open>err != nil\<close>, so
  the writes of lines 103 to 105 are skipped: no \<^verbatim>\<open>Set\<close> is issued to \<open>b\<close>.
\<close>

theorem Add_reread_success_no_repair:
  "outcome_of (Get ''x''
      \<lparr>healthy = [''a'', ''b''],
       statusChan = [\<lparr>Node = ''b'', Item = Some \<lparr>Key = ''x'', Val = ''new'', Expiration = None\<rparr>,
                       Error = None, NewValue = 0\<rparr>,
                     \<lparr>Node = ''a'', Item = Some \<lparr>Key = ''x'', Val = ''old'', Expiration = None\<rparr>,
                       Error = None, NewValue = 0\<rparr>],
       healthyAfter = 2\<rparr>) = Returns (Some \<lparr>Key = ''x'', Val = ''old'', Expiration = None\<rparr>, None)
   \<and> Add \<lparr>Key = ''x'', Val = ''new'', Expiration = None\<rparr>
      \<lparr>healthy = [''a'', ''b''],
       statusChan = [\<lparr>Node = ''a'', Item = None, Error = Some ErrNotStored, NewValue = 0\<rparr>,
                     \<lparr>Node = ''b'', Item = None, Error = None, NewValue = 0\<rparr>],
       healthyAfter = 2\<rparr>
      \<lparr>healthy = [''a'', ''b''],
       statusChan = [\<lparr>Node = ''b'', Item = Some \<lparr>Key = ''x'', Val = ''new'', Expiration = None\<rparr>,
                       Error = None, NewValue = 0\<rparr>,
                     \<lparr>Node = ''a'', Item = Some \<lparr>Key = ''x'', Val = ''old'', Expiration = None\<rparr>,
                       Error = None, NewValue = 0\<rparr>],
       healthyAfter = 2\<rparr>
     = \<lparr>outcome_of = Returns (Some ErrNotStored), dispatched = [''a'', ''b''], syncs = []\<rparr>"
  by (simp add: Add_def add_sync_def Get_def quorum_def)

text \<open>
  Claim C6. The same \<^verbatim>\<open>Add\<close>, with a re-read that fails (both nodes time out, so
  \<^verbatim>\<open>Get\<close> gives \<^verbatim>\<open>ErrCacheMiss\<close> and a \<^verbatim>\<open>nil\<close> item): line 98 dereferences the \<^verbatim>\<open>nil\<close>
  item and \<^verbatim>\<open>Add\<close> returns \<^verbatim>\<open>ErrUnknown\<close>, not \<^verbatim>\<open>ErrNotStored\<close>.
\<close>

theorem Add_reread_failure_unknown:
  "outcome_of (Get ''x''
      \<lparr>healthy = [''a'', ''b''],
       statusChan = [\<lparr>Node = ''a'', Item = None, Error = Some (ErrOther ''timeout''), NewValue = 0\<rparr>,
                     \<lparr>Node = ''b'', Item = None, Error = Some (ErrOther ''timeout''), NewValue = 0\<rparr>],
       healthyAfter = 0\<rparr>) = Returns (None, Some ErrCacheMiss)
   \<and> outcome_of (Add \<lparr>Key = ''x'', Val = ''new'', Expiration = None\<rparr>
      \<lparr>healthy = [''a'', ''b''],
       statusChan = [\<lparr>Node = ''a'', Item = None, Error = Some ErrNotStored, NewValue = 0\<rparr>,
                     \<lparr>Node = ''b'', Item = None, Error = None, NewValue = 0\<rparr>],
       healthyAfter = 2\<rparr>
      \<lparr>healthy = [''a'', ''b''],
       statusChan = [\<lparr>Node = ''a'', Item = None, Error = Some (ErrOther ''timeout''), NewValue = 0\<rparr>,
                     \<lparr>Node = ''b'', Item = None, Error = Some (ErrOther ''timeout''), NewValue = 0\<rparr>],
       healthyAfter = 0\<rparr>)
     = Returns (Some ErrUnknown)"
  by (simp add: Add_def add_sync_def Get_def quorum_def)

text \<open>
  Claim C2. Node \<open>a\<close> answers the \<^verbatim>\<open>Increment\<close> with the value 10, node \<open>b\<close> with
  \<^verbatim>\<open>ErrCacheMiss\<close>, and the re-read from \<open>a\<close> fails: the goroutine returns at line 345
  without publishing, and \<^verbatim>\<open>Increment\<close> never returns.
\<close>

theorem Increment_reread_failure_blocks:
  "outcome_of (Increment ''ctr'' 1
      \<lparr>healthy = [''a'', ''b''],
       statusChan = [\<lparr>Node = ''a'', Item = None, Error = None, NewValue = 10\<rparr>,
                     \<lparr>Node = ''b'', Item = None, Error = Some ErrCacheMiss, NewValue = 0\<rparr>,
                     \<lparr>Node = ''a'', Item = None, Error = Some (ErrOther ''timeout''), NewValue = 0\<rparr>],
       healthyAfter = 2\<rparr>) = Blocks"
  by (simp add: Increment_def incr_step_def incr_sync_def low_nodes_def)

text \<open>
  Claim C3. Nodes \<open>a\<close> and \<open>b\<close> answer with the values 10 and 5. \<^verbatim>\<open>newValues\<close> records a
  response only when it raises the maximum (line 318 stands inside the test of line 316):
  when \<open>a\<close> answers first, \<open>b\<close> is not recorded and no \<^verbatim>\<open>Set\<close> is issued; when \<open>b\<close>
  answers first, \<open>b\<close> is repaired.
\<close>

theorem Increment_repair_depends_on_order:
  "Increment ''ctr'' 1
      \<lparr>healthy = [''a'', ''b''],
       statusChan = [\<lparr>Node = ''a'', Item = None, Error = None, NewValue = 10\<rparr>,
                     \<lparr>Node = ''b'', Item = None, Error = None, NewValue = 5\<rparr>,
                     \<lparr>Node = ''a'', Item = Some \<lparr>Key = ''ctr'', Val = ''10'', Expiration = None\<rparr>,
                       Error = None, NewValue = 0\<rparr>],
       healthyAfter = 2\<rparr>
     = \<lparr>outcome_of = Returns (10, None), dispatched = [''a'', ''b''], syncs = []\<rparr>
   \<and> Increment ''ctr'' 1
      \<lparr>healthy = [''a'', ''b''],
       statusChan = [\<lparr>Node = ''b'', Item = None, Error = None, NewValue = 5\<rparr>,
                     \<lparr>Node = ''a'', Item = None, Error = None, NewValue = 10\<rparr>,
                     \<lparr>Node = ''a'', Item = Some \<lparr>Key = ''ctr'', Val = ''10'', Expiration = None\<rparr>,
                       Error = None, NewValue = 0\<rparr>],
       healthyAfter = 2\<rparr>
     = \<lparr>outcome_of = Returns (10, None), dispatched = [''a'', ''b''],
        syncs = [(''b'', \<lparr>Key = ''ctr'', Val = ''10'', Expiration = None\<rparr>)]\<rparr>"
  by (simp add: Increment_def incr_step_def incr_sync_def low_nodes_def)

text \<open>
  Claim C9. The \<^verbatim>\<open>NodeList\<close> holds \<open>a\<close> and \<open>b\<close>, and the check of \<open>a\<close> gives an error:
  the round returns it at line 580 and the \<^verbatim>\<open>HealthCheck\<close> of \<open>b\<close> is not invoked.
\<close>

theorem HealthCheck_stops_at_error:
  "HealthCheck (\<lambda>a. if a = ''a'' then (False, Some (ErrOther ''timeout'')) else (True, None))
      [(''a'', True), (''b'', False)]
     = \<lparr>checked = [''a''], nodes_after = [(''a'', False), (''b'', False)],
        returned = Some (ErrOther ''timeout'')\<rparr>"
  by simp

end
